theory Spec2Isabelle
  imports Main
begin

section \<open>Data model\<close>

text \<open>
  Modelled from the spec: the Mongoose schemas \<^verbatim>\<open>models/Post\<close> and \<^verbatim>\<open>models/User\<close> are
  required by the route file but are not among the sources. The records below follow the
  data model of the specification: a like is \<open>{user}\<close>, a comment is
  \<open>{id, user, text, name, avatar, date}\<close>, a post is
  \<open>{user, text, name, avatar, date, likes, comments}\<close>. Identifiers and user references are
  kept in their string form, the form in which the handlers compare them
  (\<^verbatim>\<open>like.user.toString() === req.user.id\<close>, \<^verbatim>\<open>comment.id === req.params.comment_id\<close>).
  A post's own identifier is the key under which the collection holds it.
\<close>

record like =
  like_user :: string

record comment =
  c_id :: string
  c_user :: string
  c_text :: string
  c_name :: string
  c_avatar :: string
  c_date :: nat

record post =
  p_user :: string
  p_text :: string
  p_name :: string
  p_avatar :: string
  p_date :: nat
  likes :: "like list"
  comments :: "comment list"

record user =
  u_name :: string
  u_email :: string
  u_avatar :: string
  u_password :: "string option"

text \<open>The document store: the two collections the handlers read and write.\<close>

record store =
  posts :: "string \<rightharpoonup> post"
  users :: "string \<rightharpoonup> user"

text \<open>
  What the handlers take from their surroundings besides the request: the identifier that
  Mongoose gives a new document or subdocument, and the clock behind the \<open>date\<close> default.
\<close>

record env =
  fresh_id :: string
  now :: nat

section \<open>Errors and responses\<close>

text \<open>
  The exceptions the \<^verbatim>\<open>try\<close> blocks can see: a \<open>CastError\<close> (with its \<open>kind\<close>) thrown by
  \<^verbatim>\<open>findById\<close> on an identifier that is no ObjectId, the \<open>TypeError\<close> of reading a
  property of \<^verbatim>\<open>null\<close>, and the \<open>ValidationError\<close> with which \<^verbatim>\<open>save\<close> rejects a
  document that its schema does not accept.
\<close>

datatype js_error = CastError string | TypeError | ValidationError

fun error_kind :: "js_error \<Rightarrow> string option" where
  "error_kind (CastError k) = Some k"
| "error_kind TypeError = None"
| "error_kind ValidationError = None"

text \<open>An entry of \<^verbatim>\<open>errors.array()\<close>: \<open>{value, msg, param, location}\<close>.\<close>

record field_error =
  fe_value :: "string option"
  fe_msg :: string
  fe_param :: string
  fe_location :: string

datatype payload =
    Message string
  | Errors "field_error list"
  | PostDoc string post
  | LikesArr "like list"
  | CommentsArr "comment list"
  | ServerError js_error

record response =
  status :: nat
  body :: payload

text \<open>\<^verbatim>\<open>res.json(x)\<close> answers with status 200; \<^verbatim>\<open>res.status(n).json(x)\<close> with \<open>n\<close>.\<close>

definition json :: "payload \<Rightarrow> response" where
  "json b = \<lparr>status = 200, body = b\<rparr>"

definition status_json :: "nat \<Rightarrow> payload \<Rightarrow> response" where
  "status_json n b = \<lparr>status = n, body = b\<rparr>"

text \<open>\<^verbatim>\<open>res.status(500).send("Server error: " + error)\<close>\<close>

definition server_error :: "js_error \<Rightarrow> response" where
  "server_error e = \<lparr>status = 500, body = ServerError e\<rparr>"

section \<open>JavaScript array operations\<close>

text \<open>\<^verbatim>\<open>xs.indexOf(v)\<close>: the first index holding \<open>v\<close>, or \<open>-1\<close>.\<close>

fun js_indexOf :: "'a list \<Rightarrow> 'a \<Rightarrow> int" where
  "js_indexOf [] v = - 1"
| "js_indexOf (x # xs) v =
     (if x = v then 0
      else (let i = js_indexOf xs v in if i < 0 then - 1 else i + 1))"

text \<open>
  \<^verbatim>\<open>xs.splice(start, deleteCount)\<close>, as the array it leaves behind: a negative \<open>start\<close>
  counts from the end, and both arguments are clamped to the array.
\<close>

definition js_splice :: "'a list \<Rightarrow> int \<Rightarrow> int \<Rightarrow> 'a list" where
  "js_splice xs start deleteCount =
     (let len = int (length xs);
          from = (if start < 0 then max (len + start) 0 else min start len);
          dc = min (max deleteCount 0) (len - from)
      in take (nat from) xs @ drop (nat (from + dc)) xs)"

definition js_unshift :: "'a \<Rightarrow> 'a list \<Rightarrow> 'a list" where
  "js_unshift x xs = x # xs"

section \<open>The persistence layer\<close>

text \<open>
  Modelled from the spec: Mongoose is an external collaborator. \<^verbatim>\<open>Model.findById\<close> casts
  its argument to an ObjectId (24 hexadecimal digits) and throws a \<open>CastError\<close> of kind
  \<open>ObjectId\<close> when that fails; otherwise it yields the document or \<^verbatim>\<open>null\<close>. The store is
  taken to answer: connection failures are outside the model.
\<close>

definition isHexDigit :: "char \<Rightarrow> bool" where
  "isHexDigit c = (c \<in> set ''0123456789abcdefABCDEF'')"

definition isValidObjectId :: "string \<Rightarrow> bool" where
  "isValidObjectId s = (length s = 24 \<and> list_all isHexDigit s)"

definition findById :: "(string \<rightharpoonup> 'a) \<Rightarrow> string \<Rightarrow> js_error + 'a option" where
  "findById coll i =
     (if isValidObjectId i then Inr (coll i) else Inl (CastError ''ObjectId''))"

text \<open>\<^verbatim>\<open>.select("-password")\<close>\<close>

definition select_no_password :: "user option \<Rightarrow> user option" where
  "select_no_password = map_option (\<lambda>u. u\<lparr>u_password := None\<rparr>)"

definition save :: "store \<Rightarrow> string \<Rightarrow> post \<Rightarrow> store" where
  "save s pid p = s\<lparr>posts := (posts s)(pid \<mapsto> p)\<rparr>"

definition remove :: "store \<Rightarrow> string \<Rightarrow> store" where
  "remove s pid = s\<lparr>posts := (posts s)(pid := None)\<rparr>"

section \<open>Requests and input validation\<close>

text \<open>
  The parts of a request in which the validation chain looks for a field: the parsed
  body, the cookies, the headers and the query string. The route parameters are the fifth;
  they are fixed by the route (none for \<^verbatim>\<open>/\<close>, \<open>id\<close> for \<^verbatim>\<open>/comment/:id\<close>), so each handler
  supplies its own. A field is absent (\<open>None\<close>) or carries a string; field values that are
  not strings (numbers, arrays, nested objects) are outside the model.
\<close>

record request =
  rq_body :: "string \<rightharpoonup> string"
  rq_cookies :: "string \<rightharpoonup> string"
  rq_headers :: "string \<rightharpoonup> string"
  rq_query :: "string \<rightharpoonup> string"

text \<open>
  Modelled from the spec: express-validator is an external collaborator, taken by its
  documented contract. \<^verbatim>\<open>check(field)\<close> selects the field in \<^verbatim>\<open>req.body\<close>,
  \<^verbatim>\<open>req.cookies\<close>, \<^verbatim>\<open>req.headers\<close>, \<^verbatim>\<open>req.params\<close> and \<^verbatim>\<open>req.query\<close>, in this order.
  Every location that holds the field must pass the chain; when no location holds it, the
  chain runs once, on the absent value of the first location. An instance is a location
  with the value found there.
\<close>

type_synonym field_instance = "string \<times> string option"

definition selectFields ::
  "(string \<rightharpoonup> string) \<Rightarrow> request \<Rightarrow> string \<Rightarrow> field_instance list" where
  "selectFields params rq field =
     [(''body'', rq_body rq field), (''cookies'', rq_cookies rq field),
      (''headers'', rq_headers rq field), (''params'', params field),
      (''query'', rq_query rq field)]"

definition getData :: "field_instance list \<Rightarrow> field_instance list" where
  "getData instances =
     (let withValue = filter (\<lambda>i. snd i \<noteq> None) instances
      in if withValue \<noteq> [] then withValue else take 1 instances)"

text \<open>The validators see a string: an absent value counts as the empty string.\<close>

definition toString :: "string option \<Rightarrow> string" where
  "toString v = (case v of None \<Rightarrow> [] | Some x \<Rightarrow> x)"

definition text_required :: "field_instance \<Rightarrow> field_error" where
  "text_required i =
     \<lparr>fe_value = snd i, fe_msg = ''Text is required'', fe_param = ''text'', fe_location = fst i\<rparr>"

text \<open>\<^verbatim>\<open>.not().isEmpty()\<close> on one instance: an error when the string has length zero.\<close>

definition not_isEmpty :: "field_instance \<Rightarrow> field_error list" where
  "not_isEmpty i = (if toString (snd i) = [] then [text_required i] else [])"

text \<open>
  \<^verbatim>\<open>check("text", "Text is required").not().isEmpty()\<close> followed by
  \<^verbatim>\<open>validationResult(req)\<close>: the errors of the selected instances, in order.
\<close>

definition validationResult :: "(string \<rightharpoonup> string) \<Rightarrow> request \<Rightarrow> field_error list" where
  "validationResult params rq =
     concat (map not_isEmpty (getData (selectFields params rq ''text'')))"

text \<open>
  Modelled from the spec: the Post schema is not among the sources. The specification
  gives the text of a post and of a comment as required and non-empty, so \<^verbatim>\<open>save\<close> rejects
  a document whose text is absent or empty with a \<open>ValidationError\<close>.
\<close>

definition required_text :: "string option \<Rightarrow> js_error + string" where
  "required_text v =
     (case v of None \<Rightarrow> Inl ValidationError
      | Some x \<Rightarrow> if x = [] then Inl ValidationError else Inr x)"

section \<open>Route handlers\<close>

text \<open>
  Each handler is a function of the store, the caller (\<^verbatim>\<open>req.user.id\<close>, set by the
  authentication middleware) and the request's parameters, giving the response and the
  store afterwards. The body of a \<^verbatim>\<open>try\<close> block is a function into
  \<open>js_error + response \<times> store\<close>; the handler applies the \<^verbatim>\<open>catch\<close> branch to it. An
  exception leaves the store as it was: every handler writes last.
\<close>

subsection \<open>POST / (create a post)\<close>



subsection \<open>DELETE /:id (delete a post)\<close>

definition delete_post_try ::
  "store \<Rightarrow> string \<Rightarrow> string \<Rightarrow> js_error + response \<times> store" where
  "delete_post_try s caller pid =
     (case findById (posts s) pid of
        Inl err \<Rightarrow> Inl err
      | Inr None \<Rightarrow> Inr (status_json 404 (Message ''Post not found''), s)
      | Inr (Some p) \<Rightarrow>
          if p_user p \<noteq> caller
          then Inr (status_json 401 (Message ''User not Authorized''), s)
          else Inr (json (Message ''Post removed successfully''), remove s pid))"

definition delete_post :: "store \<Rightarrow> string \<Rightarrow> string \<Rightarrow> response \<times> store" where
  "delete_post s caller pid =
     (case delete_post_try s caller pid of
        Inl err \<Rightarrow>
          (if error_kind err = Some ''ObjectId''
           then (status_json 404 (Message ''Post not found''), s)
           else (server_error err, s))
      | Inr r \<Rightarrow> r)"

subsection \<open>PUT /like/:id\<close>

definition like_post_try ::
  "store \<Rightarrow> string \<Rightarrow> string \<Rightarrow> js_error + response \<times> store" where
  "like_post_try s caller pid =
     (case findById (posts s) pid of
        Inl err \<Rightarrow> Inl err
      | Inr None \<Rightarrow> Inl TypeError
      | Inr (Some p) \<Rightarrow>
          if length (filter (\<lambda>l. like_user l = caller) (likes p)) > 0
          then Inr (status_json 400 (Message ''Post already liked.''), s)
          else (let p' = p\<lparr>likes := js_unshift \<lparr>like_user = caller\<rparr> (likes p)\<rparr>;
                    s' = save s pid p'
                in Inr (json (LikesArr (likes p')), s')))"

definition like_post :: "store \<Rightarrow> string \<Rightarrow> string \<Rightarrow> response \<times> store" where
  "like_post s caller pid =
     (case like_post_try s caller pid of
        Inl err \<Rightarrow> (server_error err, s)
      | Inr r \<Rightarrow> r)"

subsection \<open>PUT /unlike/:id\<close>

definition unlike_post_try ::
  "store \<Rightarrow> string \<Rightarrow> string \<Rightarrow> js_error + response \<times> store" where
  "unlike_post_try s caller pid =
     (case findById (posts s) pid of
        Inl err \<Rightarrow> Inl err
      | Inr None \<Rightarrow> Inl TypeError
      | Inr (Some p) \<Rightarrow>
          if length (filter (\<lambda>l. like_user l = caller) (likes p)) = 0
          then Inr (status_json 400 (Message ''Post has not yet been liked.''), s)
          else (let removeIndex = js_indexOf (map like_user (likes p)) caller;
                    p' = p\<lparr>likes := js_splice (likes p) removeIndex 1\<rparr>;
                    s' = save s pid p'
                in Inr (json (LikesArr (likes p')), s')))"

definition unlike_post :: "store \<Rightarrow> string \<Rightarrow> string \<Rightarrow> response \<times> store" where
  "unlike_post s caller pid =
     (case unlike_post_try s caller pid of
        Inl err \<Rightarrow> (server_error err, s)
      | Inr r \<Rightarrow> r)"

subsection \<open>POST /comment/:id\<close>

text \<open>
  The handler looks the user up, then the post, and only then reads \<^verbatim>\<open>user.name\<close> and
  \<^verbatim>\<open>post.comments\<close>: a failing cast of either identifier is thrown before any
  \<^verbatim>\<open>null\<close> is read. The new comment receives its identifier and date when it enters the
  document array, and is checked against its schema when the post is saved.
\<close>

definition add_comment_try ::
  "env \<Rightarrow> store \<Rightarrow> string \<Rightarrow> string \<Rightarrow> request \<Rightarrow> js_error + response \<times> store" where
  "add_comment_try e s caller pid rq =
     (case findById (users s) caller of
        Inl err \<Rightarrow> Inl err
      | Inr foundUser \<Rightarrow>
          (case findById (posts s) pid of
             Inl err \<Rightarrow> Inl err
           | Inr foundPost \<Rightarrow>
               (case select_no_password foundUser of
                  None \<Rightarrow> Inl TypeError
                | Some u \<Rightarrow>
                    (case foundPost of
                       None \<Rightarrow> Inl TypeError
                     | Some p \<Rightarrow>
                         (case required_text (rq_body rq ''text'') of
                            Inl err \<Rightarrow> Inl err
                          | Inr t \<Rightarrow>
                              (let newComment =
                                     \<lparr>c_id = fresh_id e, c_user = caller, c_text = t,
                                      c_name = u_name u, c_avatar = u_avatar u,
                                      c_date = now e\<rparr>;
                                   p' = p\<lparr>comments := js_unshift newComment (comments p)\<rparr>;
                                   s' = save s pid p'
                               in Inr (json (CommentsArr (comments p')), s')))))))"

definition add_comment ::
  "env \<Rightarrow> store \<Rightarrow> string \<Rightarrow> string \<Rightarrow> request \<Rightarrow> response \<times> store" where
  "add_comment e s caller pid rq =
     (let errors = validationResult [''id'' \<mapsto> pid] rq in
      if errors \<noteq> [] then (status_json 400 (Errors errors), s)
      else (case add_comment_try e s caller pid rq of
              Inl err \<Rightarrow> (server_error err, s)
            | Inr r \<Rightarrow> r))"

subsection \<open>DELETE /comment/:id/:comment_id\<close>

definition delete_comment_try ::
  "store \<Rightarrow> string \<Rightarrow> string \<Rightarrow> string \<Rightarrow> js_error + response \<times> store" where
  "delete_comment_try s caller pid cid =
     (case findById (posts s) pid of
        Inl err \<Rightarrow> Inl err
      | Inr None \<Rightarrow> Inl TypeError
      | Inr (Some p) \<Rightarrow>
          (case find (\<lambda>c. c_id c = cid) (comments p) of
             None \<Rightarrow> Inr (status_json 404 (Message ''Comment does not exist''), s)
           | Some c \<Rightarrow>
               if c_user c \<noteq> caller
               then Inr (status_json 401 (Message ''User not authorized''), s)
               else (let removeIndex = js_indexOf (map c_user (comments p)) caller;
                         p' = p\<lparr>comments := js_splice (comments p) removeIndex 1\<rparr>;
                         s' = save s pid p'
                     in Inr (json (CommentsArr (comments p')), s'))))"

definition delete_comment ::
  "store \<Rightarrow> string \<Rightarrow> string \<Rightarrow> string \<Rightarrow> response \<times> store" where
  "delete_comment s caller pid cid =
     (case delete_comment_try s caller pid cid of
        Inl err \<Rightarrow> (server_error err, s)
      | Inr r \<Rightarrow> r)"

section \<open>Notions used by the statements\<close>

text \<open>
  The position of the first comment written by \<open>caller\<close>, and of the first like given by
  \<open>caller\<close>: the number of entries before the first one that carries the caller.
\<close>

definition first_by_user :: "string \<Rightarrow> comment list \<Rightarrow> nat" where
  "first_by_user caller cs = length (takeWhile (\<lambda>c. c_user c \<noteq> caller) cs)"

definition first_like_by :: "string \<Rightarrow> like list \<Rightarrow> nat" where
  "first_like_by caller ls = length (takeWhile (\<lambda>l. like_user l \<noteq> caller) ls)"

text \<open>A user appears at most once among the likes of a post, and of every stored post.\<close>

definition likes_unique :: "post \<Rightarrow> bool" where
  "likes_unique p = distinct (map like_user (likes p))"

definition store_likes_unique :: "store \<Rightarrow> bool" where
  "store_likes_unique s = (\<forall>pid p. posts s pid = Some p \<longrightarrow> likes_unique p)"

text \<open>Sequences of like and unlike requests (caller, post identifier), run one after another.\<close>

datatype like_request = Like string string | Unlike string string

fun like_step :: "store \<Rightarrow> like_request \<Rightarrow> store" where
  "like_step s (Like caller pid) = snd (like_post s caller pid)"
| "like_step s (Unlike caller pid) = snd (unlike_post s caller pid)"

section \<open>A small store to run the handlers on\<close>

text \<open>
  Alice and Bob are registered; Carol holds a valid token but has no User record. Alice's
  post has one like, by Bob, and three comments, newest first: Alice's, Bob's, Alice's.
\<close>

definition alice_id :: string where
  "alice_id = ''5f0000000000000000000a01''"

definition bob_id :: string where
  "bob_id = ''5f0000000000000000000a02''"

definition carol_id :: string where
  "carol_id = ''5f0000000000000000000a03''"

definition post1_id :: string where
  "post1_id = ''5f0000000000000000000b01''"

definition post2_id :: string where
  "post2_id = ''5f0000000000000000000b02''"

definition comment1 :: comment where
  "comment1 = \<lparr>c_id = ''5f0000000000000000000c01'', c_user = alice_id, c_text = ''newest'',
               c_name = ''Alice'', c_avatar = ''a.png'', c_date = 30\<rparr>"

definition comment2 :: comment where
  "comment2 = \<lparr>c_id = ''5f0000000000000000000c02'', c_user = bob_id, c_text = ''middle'',
               c_name = ''Bob'', c_avatar = ''b.png'', c_date = 20\<rparr>"

definition comment3 :: comment where
  "comment3 = \<lparr>c_id = ''5f0000000000000000000c03'', c_user = alice_id, c_text = ''oldest'',
               c_name = ''Alice'', c_avatar = ''a.png'', c_date = 10\<rparr>"

definition post1 :: post where
  "post1 = \<lparr>p_user = alice_id, p_text = ''hello'', p_name = ''Alice'', p_avatar = ''a.png'',
            p_date = 5, likes = [\<lparr>like_user = bob_id\<rparr>],
            comments = [comment1, comment2, comment3]\<rparr>"

definition alice :: user where
  "alice = \<lparr>u_name = ''Alice'', u_email = ''a@x.org'', u_avatar = ''a.png'',
            u_password = Some ''hash-a''\<rparr>"

definition bob :: user where
  "bob = \<lparr>u_name = ''Bob'', u_email = ''b@x.org'', u_avatar = ''b.png'',
          u_password = Some ''hash-b''\<rparr>"

definition store1 :: store where
  "store1 = \<lparr>posts = [post1_id \<mapsto> post1], users = [alice_id \<mapsto> alice, bob_id \<mapsto> bob]\<rparr>"

definition env1 :: env where
  "env1 = \<lparr>fresh_id = ''5f0000000000000000000d01'', now = 40\<rparr>"

text \<open>
  A request with the given text in its body and in its query string (\<open>None\<close>: no such
  field), and nothing in its cookies and headers.
\<close>

definition request_with :: "string option \<Rightarrow> string option \<Rightarrow> request" where
  "request_with b q =
     \<lparr>rq_body = (\<lambda>k. if k = ''text'' then b else None), rq_cookies = Map.empty,
      rq_headers = Map.empty, rq_query = (\<lambda>k. if k = ''text'' then q else None)\<rparr>"

section \<open>Array operations: what the scans and splices compute\<close>

lemma js_indexOf_notin: "v \<notin> set xs \<Longrightarrow> js_indexOf xs v = - 1"
  by (induction xs) (auto simp: Let_def)

lemma js_indexOf_map_in:
  "v \<in> f ` set xs \<Longrightarrow>
   js_indexOf (map f xs) v = int (length (takeWhile (\<lambda>x. f x \<noteq> v) xs))"
  by (induction xs) (auto simp: Let_def js_indexOf_notin)

lemma js_splice_one:
  "k < length xs \<Longrightarrow> js_splice xs (int k) 1 = take k xs @ drop (Suc k) xs"
  by (simp add: js_splice_def Let_def min_def max_def nat_add_distrib)

lemma takeWhile_stops:
  "x \<in> set xs \<Longrightarrow> P x \<Longrightarrow> length (takeWhile (\<lambda>y. \<not> P y) xs) < length xs"
  by (induction xs) auto

lemma takeWhile_hit:
  "x \<in> set xs \<Longrightarrow> P x \<Longrightarrow> P (xs ! length (takeWhile (\<lambda>y. \<not> P y) xs))"
  by (induction xs) auto

lemma takeWhile_before:
  "j < length (takeWhile (\<lambda>y. \<not> P y) xs) \<Longrightarrow> \<not> P (xs ! j)"
  by (metis takeWhile_nth nth_mem set_takeWhileD)

lemma find_Some_set: "find P xs = Some x \<Longrightarrow> x \<in> set xs \<and> P x"
  by (auto simp: find_Some_iff)

lemma find_None_ids:
  "(find (\<lambda>x. c_id x = cid) cs = None) = (\<forall>c\<in>set cs. c_id c \<noteq> cid)"
  by (auto simp: find_None_iff)

text \<open>
  Comment identifiers are unique within a post, so the comment that \<^verbatim>\<open>find\<close> returns for
  an identifier is the one comment that carries it.
\<close>

lemma find_unique:
  "distinct (map f xs) \<Longrightarrow> x \<in> set xs \<Longrightarrow> find (\<lambda>y. f y = f x) xs = Some x"
  by (induction xs) auto

lemma set_drop_one: "set (take k xs @ drop (Suc k) xs) \<subseteq> set xs"
  using set_take_subset [of k xs] set_drop_subset [of "Suc k" xs] by auto

lemma distinct_drop_one:
  "distinct (map f xs) \<Longrightarrow> distinct (map f (take k xs @ drop (Suc k) xs))"
proof (induction xs arbitrary: k)
  case Nil
  then show ?case by simp
next
  case (Cons x xs)
  show ?case
  proof (cases k)
    case 0
    with Cons.prems show ?thesis by simp
  next
    case (Suc j)
    have "f x \<notin> f ` set (take j xs @ drop (Suc j) xs)"
      using Cons.prems set_drop_one [of j xs] by auto
    moreover have "distinct (map f (take j xs @ drop (Suc j) xs))"
      using Cons.IH [of j] Cons.prems by simp
    ultimately show ?thesis using Suc by auto
  qed
qed

section \<open>Lookups and saves\<close>

lemma findById_found:
  "isValidObjectId i \<Longrightarrow> coll i = Some d \<Longrightarrow> findById coll i = Inr (Some d)"
  by (simp add: findById_def)

lemma save_same: "posts s pid = Some p \<Longrightarrow> save s pid p = s"
  by (simp add: save_def map_upd_triv)

lemma save_save: "save (save s pid p) pid q = save s pid q"
  by (simp add: save_def)

lemma posts_save: "posts (save s pid p) = (posts s)(pid \<mapsto> p)"
  by (simp add: save_def)

lemma store_likes_unique_save:
  "store_likes_unique s \<Longrightarrow> likes_unique p \<Longrightarrow> store_likes_unique (save s pid p)"
  by (simp add: store_likes_unique_def posts_save)

section \<open>The branches of the handlers\<close>

subsection \<open>Like and unlike\<close>

lemma like_post_already:
  assumes "isValidObjectId pid" and "posts s pid = Some p"
    and "\<exists>l\<in>set (likes p). like_user l = caller"
  shows "like_post s caller pid = (status_json 400 (Message ''Post already liked.''), s)"
  using assms
  by (simp add: like_post_def like_post_try_def findById_def filter_empty_conv)

lemma like_post_fresh:
  assumes "isValidObjectId pid" and "posts s pid = Some p"
    and "\<forall>l\<in>set (likes p). like_user l \<noteq> caller"
  shows "like_post s caller pid =
           (json (LikesArr (\<lparr>like_user = caller\<rparr> # likes p)),
            save s pid (p\<lparr>likes := \<lparr>like_user = caller\<rparr> # likes p\<rparr>))"
  using assms
  by (simp add: like_post_def like_post_try_def findById_def filter_empty_conv
      js_unshift_def Let_def)

lemma like_post_no_post:
  assumes "\<not> isValidObjectId pid \<or> posts s pid = None"
  shows "snd (like_post s caller pid) = s"
  using assms
  by (auto simp add: like_post_def like_post_try_def findById_def)

lemma unlike_post_absent:
  assumes "isValidObjectId pid" and "posts s pid = Some p"
    and "\<forall>l\<in>set (likes p). like_user l \<noteq> caller"
  shows "unlike_post s caller pid =
           (status_json 400 (Message ''Post has not yet been liked.''), s)"
  using assms
  by (simp add: unlike_post_def unlike_post_try_def findById_def filter_empty_conv)

lemma unlike_post_present:
  assumes v: "isValidObjectId pid" and p: "posts s pid = Some p"
    and l: "l \<in> set (likes p)" and u: "like_user l = caller"
  shows "first_like_by caller (likes p) < length (likes p)"
    and "unlike_post s caller pid =
           (json (LikesArr (take (first_like_by caller (likes p)) (likes p)
                        @ drop (Suc (first_like_by caller (likes p))) (likes p))),
            save s pid (p\<lparr>likes := take (first_like_by caller (likes p)) (likes p)
                        @ drop (Suc (first_like_by caller (likes p))) (likes p)\<rparr>))"
proof -
  have img: "caller \<in> like_user ` set (likes p)" using l u by auto
  have i: "js_indexOf (map like_user (likes p)) caller = int (first_like_by caller (likes p))"
    unfolding first_like_by_def using img by (rule js_indexOf_map_in)
  show k: "first_like_by caller (likes p) < length (likes p)"
    unfolding first_like_by_def
    using takeWhile_stops [of l "likes p" "\<lambda>x. like_user x = caller"] l u by simp
  have ne: "filter (\<lambda>x. like_user x = caller) (likes p) \<noteq> []"
    using l u by (auto simp: filter_empty_conv)
  show "unlike_post s caller pid =
           (json (LikesArr (take (first_like_by caller (likes p)) (likes p)
                        @ drop (Suc (first_like_by caller (likes p))) (likes p))),
            save s pid (p\<lparr>likes := take (first_like_by caller (likes p)) (likes p)
                        @ drop (Suc (first_like_by caller (likes p))) (likes p)\<rparr>))"
    using ne
    by (simp add: unlike_post_def unlike_post_try_def
        findById_found [of pid "posts s" p, OF v p] i js_splice_one [OF k] Let_def)
qed

lemma unlike_post_no_post:
  assumes "\<not> isValidObjectId pid \<or> posts s pid = None"
  shows "snd (unlike_post s caller pid) = s"
  using assms
  by (auto simp add: unlike_post_def unlike_post_try_def findById_def)

lemma like_post_keeps_unique:
  assumes inv: "store_likes_unique s"
  shows "store_likes_unique (snd (like_post s caller pid))"
proof (cases "isValidObjectId pid \<and> posts s pid \<noteq> None")
  case False
  then have "snd (like_post s caller pid) = s" by (intro like_post_no_post) auto
  with inv show ?thesis by simp
next
  case True
  then obtain p where v: "isValidObjectId pid" and p: "posts s pid = Some p" by auto
  from inv p have up: "likes_unique p" by (auto simp: store_likes_unique_def)
  show ?thesis
  proof (cases "\<exists>l\<in>set (likes p). like_user l = caller")
    case True
    then show ?thesis using inv like_post_already [OF v p] by simp
  next
    case False
    then have fr: "\<forall>l\<in>set (likes p). like_user l \<noteq> caller" by simp
    have "likes_unique (p\<lparr>likes := \<lparr>like_user = caller\<rparr> # likes p\<rparr>)"
      using up fr by (auto simp: likes_unique_def)
    then show ?thesis
      using inv like_post_fresh [OF v p fr] by (simp add: store_likes_unique_save)
  qed
qed

lemma unlike_post_keeps_unique:
  assumes inv: "store_likes_unique s"
  shows "store_likes_unique (snd (unlike_post s caller pid))"
proof (cases "isValidObjectId pid \<and> posts s pid \<noteq> None")
  case False
  then have "snd (unlike_post s caller pid) = s" by (intro unlike_post_no_post) auto
  with inv show ?thesis by simp
next
  case True
  then obtain p where v: "isValidObjectId pid" and p: "posts s pid = Some p" by auto
  from inv p have up: "likes_unique p" by (auto simp: store_likes_unique_def)
  show ?thesis
  proof (cases "\<exists>l\<in>set (likes p). like_user l = caller")
    case False
    then have fr: "\<forall>l\<in>set (likes p). like_user l \<noteq> caller" by simp
    show ?thesis using inv unlike_post_absent [OF v p fr] by simp
  next
    case True
    then obtain l where l: "l \<in> set (likes p)" and u: "like_user l = caller" by auto
    let ?k = "first_like_by caller (likes p)"
    have "likes_unique (p\<lparr>likes := take ?k (likes p) @ drop (Suc ?k) (likes p)\<rparr>)"
      using up distinct_drop_one [of like_user "likes p" ?k] by (simp add: likes_unique_def)
    then show ?thesis
      using inv unlike_post_present(2) [OF v p l u] by (simp add: store_likes_unique_save)
  qed
qed

lemma like_step_keeps_unique:
  "store_likes_unique s \<Longrightarrow> store_likes_unique (like_step s r)"
  by (cases r) (simp_all add: like_post_keeps_unique unlike_post_keeps_unique)

lemma run_keeps_unique:
  "store_likes_unique s \<Longrightarrow> store_likes_unique (foldl like_step s rs)"
  by (induction rs arbitrary: s) (simp_all add: like_step_keeps_unique)

subsection \<open>Delete a comment, both guards passed\<close>

lemma delete_comment_passes:
  assumes v: "isValidObjectId pid" and p: "posts s pid = Some p"
    and f: "find (\<lambda>x. c_id x = cid) (comments p) = Some c" and u: "c_user c = caller"
  shows "js_indexOf (map c_user (comments p)) caller = int (first_by_user caller (comments p))"
    and "first_by_user caller (comments p) < length (comments p)"
    and "delete_comment s caller pid cid =
          (json (CommentsArr (take (first_by_user caller (comments p)) (comments p)
                       @ drop (Suc (first_by_user caller (comments p))) (comments p))),
           save s pid (p\<lparr>comments := take (first_by_user caller (comments p)) (comments p)
                       @ drop (Suc (first_by_user caller (comments p))) (comments p)\<rparr>))"
proof -
  have mem: "c \<in> set (comments p)" using f by (simp add: find_Some_set)
  then have img: "caller \<in> c_user ` set (comments p)" using u by auto
  show i: "js_indexOf (map c_user (comments p)) caller = int (first_by_user caller (comments p))"
    unfolding first_by_user_def using img by (rule js_indexOf_map_in)
  show k: "first_by_user caller (comments p) < length (comments p)"
    unfolding first_by_user_def
    using takeWhile_stops [of c "comments p" "\<lambda>x. c_user x = caller"] mem u by simp
  show "delete_comment s caller pid cid =
          (json (CommentsArr (take (first_by_user caller (comments p)) (comments p)
                       @ drop (Suc (first_by_user caller (comments p))) (comments p))),
           save s pid (p\<lparr>comments := take (first_by_user caller (comments p)) (comments p)
                       @ drop (Suc (first_by_user caller (comments p))) (comments p)\<rparr>))"
    using f u
    by (simp add: delete_comment_def delete_comment_try_def
        findById_found [of pid "posts s" p, OF v p] i js_splice_one [OF k] Let_def)
qed

section \<open>Facts about the small store\<close>

lemma valid_ids [simp]:
  "isValidObjectId alice_id" "isValidObjectId bob_id" "isValidObjectId carol_id"
  "isValidObjectId post1_id" "isValidObjectId post2_id"
  by (simp_all add: isValidObjectId_def isHexDigit_def alice_id_def bob_id_def carol_id_def
      post1_id_def post2_id_def)

lemma ids_differ [simp]:
  "alice_id \<noteq> bob_id" "bob_id \<noteq> alice_id" "alice_id \<noteq> carol_id" "carol_id \<noteq> alice_id"
  "bob_id \<noteq> carol_id" "carol_id \<noteq> bob_id" "post1_id \<noteq> post2_id" "post2_id \<noteq> post1_id"
  by (simp_all add: alice_id_def bob_id_def carol_id_def post1_id_def post2_id_def)

lemma store1_posts [simp]:
  "posts store1 post1_id = Some post1" "posts store1 post2_id = None"
  by (simp_all add: store1_def)

lemma store1_users [simp]:
  "users store1 alice_id = Some alice" "users store1 carol_id = None"
  by (simp_all add: store1_def)

lemma alice_fields [simp]:
  "u_name alice = ''Alice''" "u_avatar alice = ''a.png''"
  by (simp_all add: alice_def)

lemma post1_fields [simp]:
  "p_user post1 = alice_id" "likes post1 = [\<lparr>like_user = bob_id\<rparr>]"
  "comments post1 = [comment1, comment2, comment3]"
  by (simp_all add: post1_def)

lemma comment_fields [simp]:
  "c_user comment1 = alice_id" "c_user comment2 = bob_id" "c_user comment3 = alice_id"
  "c_id comment1 \<noteq> c_id comment2" "c_id comment1 \<noteq> c_id comment3"
  "c_id comment2 \<noteq> c_id comment3" "c_id comment2 \<noteq> c_id comment1"
  "c_id comment3 \<noteq> c_id comment1" "c_id comment3 \<noteq> c_id comment2"
  by (simp_all add: comment1_def comment2_def comment3_def)

lemma store1_unique: "store_likes_unique store1"
  by (simp add: store_likes_unique_def store1_def likes_unique_def post1_def)

section \<open>The validation guard\<close>

lemma validationResult_Nil_iff:
  "(validationResult pm rq = []) =
     (rq_body rq ''text'' \<noteq> Some [] \<and> rq_cookies rq ''text'' \<noteq> Some [] \<and>
      rq_headers rq ''text'' \<noteq> Some [] \<and> pm ''text'' \<noteq> Some [] \<and>
      rq_query rq ''text'' \<noteq> Some [] \<and>
      \<not> (rq_body rq ''text'' = None \<and> rq_cookies rq ''text'' = None \<and>
         rq_headers rq ''text'' = None \<and> pm ''text'' = None \<and> rq_query rq ''text'' = None))"
  by (cases "rq_body rq ''text''"; cases "rq_cookies rq ''text''";
      cases "rq_headers rq ''text''"; cases "pm ''text''"; cases "rq_query rq ''text''")
    (simp_all add: validationResult_def selectFields_def getData_def not_isEmpty_def
      toString_def)





lemma add_comment_accepted:
  assumes "validationResult [''id'' \<mapsto> pid] rq = []" and "rq_body rq ''text'' = Some v"
    and "v \<noteq> []" and "isValidObjectId pid" and "posts s pid = Some p"
    and "isValidObjectId caller" and "users s caller = Some u"
  shows "add_comment e s caller pid rq =
           (json (CommentsArr (\<lparr>c_id = fresh_id e, c_user = caller, c_text = v,
                     c_name = u_name u, c_avatar = u_avatar u, c_date = now e\<rparr> # comments p)),
            save s pid (p\<lparr>comments := \<lparr>c_id = fresh_id e, c_user = caller, c_text = v,
                     c_name = u_name u, c_avatar = u_avatar u, c_date = now e\<rparr> # comments p\<rparr>))"
  using assms
  by (simp add: add_comment_def add_comment_try_def findById_def select_no_password_def
      required_text_def Let_def js_unshift_def)

lemma request_with_fields [simp]:
  "rq_body (request_with b q) ''text'' = b" "rq_query (request_with b q) ''text'' = q"
  "rq_cookies (request_with b q) ''text'' = None" "rq_headers (request_with b q) ''text'' = None"
  by (simp_all add: request_with_def)

section \<open>Deleting a comment\<close>

text \<open>
  Claim C1. Take a delete-comment request on a stored post where the comment that the
  handler locates by \<open>comment_id\<close> (the comment with that identifier) was written by the
  caller. The removal index \<open>k\<close> is the result of scanning the comments' \<open>user\<close> fields for
  the caller: it is the position of the first comment written by the caller, wherever the
  comment named by \<open>comment_id\<close> stands. The handler removes exactly the comment at \<open>k\<close>,
  saves the post and answers with the remaining comments. The removed comment need not be
  the one named: in the small store, Alice asks to delete her oldest comment
  (\<open>comment3\<close>) and loses her newest (\<open>comment1\<close>), while \<open>comment3\<close> stays.
\<close>

theorem delete_comment_removes_first_by_user:
  "(\<forall>(s::store) caller pid cid (p::post) (c::comment).
      isValidObjectId pid \<and> posts s pid = Some p \<and>
      find (\<lambda>x. c_id x = cid) (comments p) = Some c \<and> c_user c = caller \<longrightarrow>
      (\<exists>k cs'. k < length (comments p) \<and>
          js_indexOf (map c_user (comments p)) caller = int k \<and>
          c_user (comments p ! k) = caller \<and>
          (\<forall>j<k. c_user (comments p ! j) \<noteq> caller) \<and>
          cs' = take k (comments p) @ drop (Suc k) (comments p) \<and>
          delete_comment s caller pid cid =
            (json (CommentsArr cs'), save s pid (p\<lparr>comments := cs'\<rparr>))))
   \<and> (find (\<lambda>x. c_id x = c_id comment3) (comments post1) = Some comment3 \<and>
        c_user comment3 = alice_id \<and> c_id comment1 \<noteq> c_id comment3 \<and>
        comments post1 = [comment1, comment2, comment3] \<and>
        delete_comment store1 alice_id post1_id (c_id comment3) =
          (json (CommentsArr [comment2, comment3]),
           save store1 post1_id (post1\<lparr>comments := [comment2, comment3]\<rparr>)))"
proof (intro conjI allI impI)
  fix s :: store and caller pid cid :: string and p :: post and c :: comment
  assume h: "isValidObjectId pid \<and> posts s pid = Some p \<and>
      find (\<lambda>x. c_id x = cid) (comments p) = Some c \<and> c_user c = caller"
  let ?k = "first_by_user caller (comments p)"
  let ?cs = "take ?k (comments p) @ drop (Suc ?k) (comments p)"
  from h have v: "isValidObjectId pid" and ps: "posts s pid = Some p"
    and f: "find (\<lambda>x. c_id x = cid) (comments p) = Some c" and u: "c_user c = caller"
    by blast+
  note d = delete_comment_passes [OF v ps f u]
  have mem: "c \<in> set (comments p)" using f by (simp add: find_Some_set)
  have hit: "c_user (comments p ! ?k) = caller"
    unfolding first_by_user_def
    using takeWhile_hit [of c "comments p" "\<lambda>x. c_user x = caller"] mem u by simp
  have before: "\<forall>j<?k. c_user (comments p ! j) \<noteq> caller"
    unfolding first_by_user_def
    using takeWhile_before [of _ "\<lambda>x. c_user x = caller" "comments p"] by simp
  have "?k < length (comments p) \<and>
          js_indexOf (map c_user (comments p)) caller = int ?k \<and>
          c_user (comments p ! ?k) = caller \<and>
          (\<forall>j<?k. c_user (comments p ! j) \<noteq> caller) \<and>
          ?cs = take ?k (comments p) @ drop (Suc ?k) (comments p) \<and>
          delete_comment s caller pid cid =
            (json (CommentsArr ?cs), save s pid (p\<lparr>comments := ?cs\<rparr>))"
    by (intro conjI) (rule d hit before refl)+
  then show "\<exists>k cs'. k < length (comments p) \<and>
          js_indexOf (map c_user (comments p)) caller = int k \<and>
          c_user (comments p ! k) = caller \<and>
          (\<forall>j<k. c_user (comments p ! j) \<noteq> caller) \<and>
          cs' = take k (comments p) @ drop (Suc k) (comments p) \<and>
          delete_comment s caller pid cid =
            (json (CommentsArr cs'), save s pid (p\<lparr>comments := cs'\<rparr>))" by blast
next
  show "find (\<lambda>x. c_id x = c_id comment3) (comments post1) = Some comment3" by simp
next
  show "c_user comment3 = alice_id" by simp
next
  show "c_id comment1 \<noteq> c_id comment3" by simp
next
  show "comments post1 = [comment1, comment2, comment3]" by simp
next
  have f: "find (\<lambda>x. c_id x = c_id comment3) (comments post1) = Some comment3" by simp
  have k: "first_by_user alice_id (comments post1) = 0" by (simp add: first_by_user_def)
  have e: "delete_comment store1 alice_id post1_id (c_id comment3) =
     (json (CommentsArr (take 0 (comments post1) @ drop (Suc 0) (comments post1))),
      save store1 post1_id
        (post1\<lparr>comments := take 0 (comments post1) @ drop (Suc 0) (comments post1)\<rparr>))"
    using delete_comment_passes(3)
      [of post1_id store1 post1 "c_id comment3" comment3 alice_id, OF _ _ f]
    unfolding k by simp
  show "delete_comment store1 alice_id post1_id (c_id comment3) =
          (json (CommentsArr [comment2, comment3]),
           save store1 post1_id (post1\<lparr>comments := [comment2, comment3]\<rparr>))"
    unfolding e by simp
qed

text \<open>
  The statement of C1 at a request of the small store: Bob deletes his comment
  (\<open>comment2\<close>), the only one he wrote; both guards pass and the scan finds index 1.
\<close>

theorem delete_comment_removes_first_by_user_witness:
  "isValidObjectId post1_id \<and> posts store1 post1_id = Some post1 \<and>
   find (\<lambda>x. c_id x = c_id comment2) (comments post1) = Some comment2 \<and>
   c_user comment2 = bob_id \<and>
   js_indexOf (map c_user (comments post1)) bob_id = 1 \<and>
   delete_comment store1 bob_id post1_id (c_id comment2) =
     (json (CommentsArr [comment1, comment3]),
      save store1 post1_id (post1\<lparr>comments := [comment1, comment3]\<rparr>))"
proof -
  have h: "isValidObjectId post1_id \<and> posts store1 post1_id = Some post1 \<and>
     find (\<lambda>x. c_id x = c_id comment2) (comments post1) = Some comment2 \<and>
     c_user comment2 = bob_id" by simp
  have i: "js_indexOf (map c_user (comments post1)) bob_id = 1" by simp
  from delete_comment_removes_first_by_user
    [THEN conjunct1, rule_format, of post1_id store1 post1 "c_id comment2" comment2 bob_id, OF h]
  obtain k cs' where k: "js_indexOf (map c_user (comments post1)) bob_id = int k"
    and cs: "cs' = take k (comments post1) @ drop (Suc k) (comments post1)"
    and d: "delete_comment store1 bob_id post1_id (c_id comment2) =
            (json (CommentsArr cs'), save store1 post1_id (post1\<lparr>comments := cs'\<rparr>))"
    by blast
  from k i have "k = 1" by simp
  with cs have "cs' = [comment1, comment3]" by simp
  with d h i show ?thesis by simp
qed

section \<open>Liking and unliking\<close>

text \<open>
  Claim C2. A like request on a stored post: when the likes already hold an entry of the
  caller, the answer is 400 and the store (so the likes array) is unchanged; otherwise
  \<open>{user: caller}\<close> is put in front of the likes, the post is saved with them, and the
  response carries the new likes array.
\<close>

theorem like_post_guard_and_prepend:
  assumes "isValidObjectId pid" and "posts s pid = Some p"
  shows "if (\<exists>l\<in>set (likes p). like_user l = caller)
         then like_post s caller pid = (status_json 400 (Message ''Post already liked.''), s)
         else like_post s caller pid =
                (json (LikesArr (\<lparr>like_user = caller\<rparr> # likes p)),
                 save s pid (p\<lparr>likes := \<lparr>like_user = caller\<rparr> # likes p\<rparr>)) \<and>
              posts (snd (like_post s caller pid)) pid =
                Some (p\<lparr>likes := \<lparr>like_user = caller\<rparr> # likes p\<rparr>)"
proof (cases "\<exists>l\<in>set (likes p). like_user l = caller")
  case True
  then show ?thesis using like_post_already [OF assms True] by simp
next
  case False
  then have fr: "\<forall>l\<in>set (likes p). like_user l \<noteq> caller" by simp
  show ?thesis using False like_post_fresh [OF assms fr] by (simp add: posts_save)
qed

text \<open>
  C2 on the small store, one request for each branch: Bob has liked the post already,
  Alice has not.
\<close>

theorem like_post_guard_and_prepend_witness:
  "isValidObjectId post1_id \<and> posts store1 post1_id = Some post1 \<and>
   like_post store1 bob_id post1_id = (status_json 400 (Message ''Post already liked.''), store1) \<and>
   like_post store1 alice_id post1_id =
     (json (LikesArr [\<lparr>like_user = alice_id\<rparr>, \<lparr>like_user = bob_id\<rparr>]),
      save store1 post1_id
        (post1\<lparr>likes := [\<lparr>like_user = alice_id\<rparr>, \<lparr>like_user = bob_id\<rparr>]\<rparr>))"
  using like_post_guard_and_prepend [of post1_id store1 post1 bob_id]
    like_post_guard_and_prepend [of post1_id store1 post1 alice_id]
  by simp

text \<open>
  Claim C3. On a stored post whose likes do not hold the caller, a like followed by an
  unlike of the same caller gives back the store as it was, likes included: the like puts
  the caller's entry in front, the unlike's scan finds it at index 0 and splices it out,
  and the unlike answers with the likes as they were before the like.
\<close>

theorem like_then_unlike_roundtrip:
  assumes v: "isValidObjectId pid" and p: "posts s pid = Some p"
    and fr: "\<forall>l\<in>set (likes p). like_user l \<noteq> caller"
  shows "fst (like_post s caller pid) = json (LikesArr (\<lparr>like_user = caller\<rparr> # likes p)) \<and>
         js_indexOf (map like_user (\<lparr>like_user = caller\<rparr> # likes p)) caller = 0 \<and>
         unlike_post (snd (like_post s caller pid)) caller pid = (json (LikesArr (likes p)), s)"
proof -
  let ?l = "\<lparr>like_user = caller\<rparr>"
  let ?p1 = "p\<lparr>likes := ?l # likes p\<rparr>"
  let ?s1 = "save s pid ?p1"
  have lk: "like_post s caller pid = (json (LikesArr (?l # likes p)), ?s1)"
    by (rule like_post_fresh [OF v p fr])
  have p1: "posts ?s1 pid = Some ?p1" by (simp add: posts_save)
  have mem: "?l \<in> set (likes ?p1)" by simp
  have k: "first_like_by caller (?l # likes p) = 0" by (simp add: first_like_by_def)
  have "unlike_post ?s1 caller pid =
          (json (LikesArr (likes p)), save ?s1 pid (?p1\<lparr>likes := likes p\<rparr>))"
    using unlike_post_present(2) [OF v p1 mem] by (simp add: k)
  moreover have "save ?s1 pid (?p1\<lparr>likes := likes p\<rparr>) = s"
    using p by (simp add: save_save save_same)
  ultimately show ?thesis using lk by simp
qed

text \<open>C3 on the small store: Alice likes the post that Bob has liked, then unlikes it.\<close>

theorem like_then_unlike_roundtrip_witness:
  "isValidObjectId post1_id \<and> posts store1 post1_id = Some post1 \<and>
   likes post1 = [\<lparr>like_user = bob_id\<rparr>] \<and> bob_id \<noteq> alice_id \<and>
   fst (like_post store1 alice_id post1_id) =
     json (LikesArr [\<lparr>like_user = alice_id\<rparr>, \<lparr>like_user = bob_id\<rparr>]) \<and>
   unlike_post (snd (like_post store1 alice_id post1_id)) alice_id post1_id =
     (json (LikesArr [\<lparr>like_user = bob_id\<rparr>]), store1)"
  using like_then_unlike_roundtrip [of post1_id store1 post1 alice_id]
  by simp

text \<open>
  Claim C4. If in every stored post each user appears at most once among the likes, then
  the same holds after a like request, after an unlike request, and after any sequence of
  like and unlike requests, whoever the callers and whatever the post identifiers.
\<close>

theorem likes_unique_preserved:
  assumes "store_likes_unique s"
  shows "store_likes_unique (snd (like_post s caller pid)) \<and>
         store_likes_unique (snd (unlike_post s caller pid)) \<and>
         store_likes_unique (foldl like_step s rs)"
  using assms like_post_keeps_unique unlike_post_keeps_unique run_keeps_unique by blast

text \<open>
  C4 on the small store; liking twice as Alice leaves exactly one entry of hers in the
  likes.
\<close>

theorem likes_unique_preserved_witness:
  "store_likes_unique store1 \<and>
   store_likes_unique (snd (like_post store1 alice_id post1_id)) \<and>
   store_likes_unique (snd (unlike_post store1 bob_id post1_id)) \<and>
   store_likes_unique
     (foldl like_step store1
        [Like alice_id post1_id, Like alice_id post1_id, Unlike bob_id post1_id]) \<and>
   posts (foldl like_step store1 [Like alice_id post1_id, Like alice_id post1_id]) post1_id =
     Some (post1\<lparr>likes := [\<lparr>like_user = alice_id\<rparr>, \<lparr>like_user = bob_id\<rparr>]\<rparr>)"
proof -
  let ?p1 = "post1\<lparr>likes := [\<lparr>like_user = alice_id\<rparr>, \<lparr>like_user = bob_id\<rparr>]\<rparr>"
  have fr: "\<forall>l\<in>set (likes post1). like_user l \<noteq> alice_id" by simp
  have a: "like_post store1 alice_id post1_id =
             (json (LikesArr [\<lparr>like_user = alice_id\<rparr>, \<lparr>like_user = bob_id\<rparr>]),
              save store1 post1_id ?p1)"
    using like_post_fresh [of post1_id store1 post1 alice_id] fr by simp
  have b: "like_post (save store1 post1_id ?p1) alice_id post1_id =
             (status_json 400 (Message ''Post already liked.''), save store1 post1_id ?p1)"
    using like_post_already [of post1_id "save store1 post1_id ?p1" ?p1 alice_id]
    by (simp add: posts_save)
  have two:
    "posts (foldl like_step store1 [Like alice_id post1_id, Like alice_id post1_id]) post1_id =
       Some ?p1"
    by (simp add: a b posts_save)
  show ?thesis
    using store1_unique two
      likes_unique_preserved [of store1 alice_id post1_id
        "[Like alice_id post1_id, Like alice_id post1_id, Unlike bob_id post1_id]"]
      likes_unique_preserved [of store1 bob_id post1_id "[]"]
    by simp
qed

section \<open>Deleting a comment: the guards\<close>

text \<open>
  Claim C5. A delete-comment request on a stored post: when no comment of the post has the
  identifier \<open>comment_id\<close>, the answer is 404; when the comment with that identifier was
  written by someone other than the caller, the answer is 401. In both cases the store, and
  with it the post's comments, is what it was.
\<close>

theorem delete_comment_rejections:
  assumes v: "isValidObjectId pid" and p: "posts s pid = Some p"
  shows "((\<forall>c\<in>set (comments p). c_id c \<noteq> cid) \<longrightarrow>
            delete_comment s caller pid cid =
              (status_json 404 (Message ''Comment does not exist''), s)) \<and>
         (\<forall>c. find (\<lambda>x. c_id x = cid) (comments p) = Some c \<and> c_user c \<noteq> caller \<longrightarrow>
            delete_comment s caller pid cid =
              (status_json 401 (Message ''User not authorized''), s))"
  by (simp add: delete_comment_def delete_comment_try_def
      findById_found [of pid "posts s" p, OF v p] find_None_ids [symmetric])

text \<open>
  C5 on the small store: Alice names an identifier that no comment carries, then Bob's
  comment.
\<close>

theorem delete_comment_rejections_witness:
  "isValidObjectId post1_id \<and> posts store1 post1_id = Some post1 \<and>
   comments post1 = [comment1, comment2, comment3] \<and>
   c_id comment1 \<noteq> post2_id \<and> c_id comment2 \<noteq> post2_id \<and> c_id comment3 \<noteq> post2_id \<and>
   delete_comment store1 alice_id post1_id post2_id =
     (status_json 404 (Message ''Comment does not exist''), store1) \<and>
   find (\<lambda>x. c_id x = c_id comment2) (comments post1) = Some comment2 \<and>
   c_user comment2 \<noteq> alice_id \<and>
   delete_comment store1 alice_id post1_id (c_id comment2) =
     (status_json 401 (Message ''User not authorized''), store1)"
proof -
  have a: "\<forall>c\<in>set (comments post1). c_id c \<noteq> post2_id"
    by (simp add: comment1_def comment2_def comment3_def post2_id_def)
  have f: "find (\<lambda>x. c_id x = c_id comment2) (comments post1) = Some comment2" by simp
  have u: "c_user comment2 \<noteq> alice_id" by simp
  show ?thesis
    using delete_comment_rejections [of post1_id store1 post1 post2_id alice_id] a
      delete_comment_rejections [of post1_id store1 post1 "c_id comment2" alice_id] f u
    by simp
qed

section \<open>Deleting a post\<close>

text \<open>
  Claim C6. A delete-post request: when the identifier is malformed or no post is stored
  under it, the answer is 404 (so not 500) and the store is unchanged; when the post is
  stored and its \<open>user\<close> is not the caller, the answer is 401 and the store is unchanged;
  when its \<open>user\<close> is the caller, the document is removed and a confirmation is returned.
  The store changes only in the last case.
\<close>

theorem delete_post_outcomes:
  "((\<not> isValidObjectId pid \<or> posts s pid = None) \<longrightarrow>
      delete_post s caller pid = (status_json 404 (Message ''Post not found''), s) \<and>
      status (fst (delete_post s caller pid)) \<noteq> 500) \<and>
   (\<forall>p. isValidObjectId pid \<and> posts s pid = Some p \<and> p_user p \<noteq> caller \<longrightarrow>
      delete_post s caller pid = (status_json 401 (Message ''User not Authorized''), s)) \<and>
   (\<forall>p. isValidObjectId pid \<and> posts s pid = Some p \<and> p_user p = caller \<longrightarrow>
      delete_post s caller pid = (json (Message ''Post removed successfully''), remove s pid) \<and>
      posts (snd (delete_post s caller pid)) pid = None) \<and>
   (snd (delete_post s caller pid) \<noteq> s \<longrightarrow>
      (\<exists>p. isValidObjectId pid \<and> posts s pid = Some p \<and> p_user p = caller))"
  by (auto simp add: delete_post_def delete_post_try_def findById_def status_json_def remove_def
      split: option.splits)

text \<open>
  C6 on the small store: a malformed identifier, an identifier with no post, Bob deleting
  Alice's post, Alice deleting her post.
\<close>

theorem delete_post_outcomes_witness:
  "\<not> isValidObjectId ''not-an-id'' \<and>
   delete_post store1 alice_id ''not-an-id'' =
     (status_json 404 (Message ''Post not found''), store1) \<and>
   posts store1 post2_id = None \<and>
   delete_post store1 alice_id post2_id = (status_json 404 (Message ''Post not found''), store1) \<and>
   isValidObjectId post1_id \<and> posts store1 post1_id = Some post1 \<and> p_user post1 \<noteq> bob_id \<and>
   delete_post store1 bob_id post1_id =
     (status_json 401 (Message ''User not Authorized''), store1) \<and>
   p_user post1 = alice_id \<and>
   delete_post store1 alice_id post1_id =
     (json (Message ''Post removed successfully''), remove store1 post1_id) \<and>
   posts (snd (delete_post store1 alice_id post1_id)) post1_id = None"
proof -
  have n: "\<not> isValidObjectId ''not-an-id''" by (simp add: isValidObjectId_def)
  show ?thesis
    using n delete_post_outcomes [of "''not-an-id''" store1 alice_id]
      delete_post_outcomes [of post2_id store1 alice_id]
      delete_post_outcomes [of post1_id store1 bob_id]
      delete_post_outcomes [of post1_id store1 alice_id]
    by (simp add: remove_def)
qed

section \<open>Creating a post\<close>




section \<open>Adding a comment\<close>

text \<open>
  Claim C8, as stated, at two requests it does not cover, each with non-empty text in the
  body and on a stored post. In the first no comment is added and the answer is 500,
  because the caller (Carol) has no User record. In the second no comment is added and the
  answer is 400, because the query string carries an empty text and every location that
  holds the field must pass the validation.
\<close>

theorem add_comment_counterexample:
  "''nice'' \<noteq> [] \<and> isValidObjectId post1_id \<and> posts store1 post1_id = Some post1 \<and>
   isValidObjectId carol_id \<and> users store1 carol_id = None \<and>
   add_comment env1 store1 carol_id post1_id (request_with (Some ''nice'') None) =
     (server_error TypeError, store1) \<and>
   status (server_error TypeError) = 500 \<and>
   isValidObjectId alice_id \<and> users store1 alice_id = Some alice \<and>
   add_comment env1 store1 alice_id post1_id (request_with (Some ''nice'') (Some [])) =
     (status_json 400 (Errors [text_required (''query'', Some [])]), store1)"
  by (simp add: add_comment_def add_comment_try_def findById_def validationResult_def
      selectFields_def getData_def not_isEmpty_def toString_def required_text_def
      select_no_password_def server_error_def)

text \<open>
  Claim C8, amended. An add-comment request on a stored post whose body text is a
  non-empty string, whose text field in each of the other locations the validation chain
  looks at (cookies, headers, query string) is absent or a non-empty string, by a caller
  who has a User record: the new
  comment carries the text and the name and avatar of that record; it stands at index 0 of
  the comments, every earlier comment has moved up by one position, the post is saved with
  these comments and the response carries them.
\<close>

theorem add_comment_prepends:
  assumes b: "rq_body rq ''text'' = Some v" and t: "v \<noteq> []"
    and o: "rq_cookies rq ''text'' \<noteq> Some []" "rq_headers rq ''text'' \<noteq> Some []"
      "rq_query rq ''text'' \<noteq> Some []"
    and v: "isValidObjectId pid" and p: "posts s pid = Some p"
    and c: "isValidObjectId caller" and u: "users s caller = Some u"
  shows "\<exists>nc. nc = \<lparr>c_id = fresh_id e, c_user = caller, c_text = v, c_name = u_name u,
                     c_avatar = u_avatar u, c_date = now e\<rparr> \<and>
           add_comment e s caller pid rq =
             (json (CommentsArr (nc # comments p)),
              save s pid (p\<lparr>comments := nc # comments p\<rparr>)) \<and>
           posts (snd (add_comment e s caller pid rq)) pid =
             Some (p\<lparr>comments := nc # comments p\<rparr>) \<and>
           (nc # comments p) ! 0 = nc \<and> c_text ((nc # comments p) ! 0) = v \<and>
           (\<forall>i<length (comments p). (nc # comments p) ! Suc i = comments p ! i)"
proof -
  have ok: "validationResult [''id'' \<mapsto> pid] rq = []"
    using b t o by (simp add: validationResult_Nil_iff)
  show ?thesis
    by (simp add: add_comment_accepted [OF ok b t v p c u] posts_save)
qed

text \<open>The amended C8 on the small store: Alice comments ``nice'' on her post.\<close>

theorem add_comment_prepends_witness:
  "rq_body (request_with (Some ''nice'') None) ''text'' = Some ''nice'' \<and> ''nice'' \<noteq> [] \<and>
   rq_cookies (request_with (Some ''nice'') None) ''text'' \<noteq> Some [] \<and>
   rq_headers (request_with (Some ''nice'') None) ''text'' \<noteq> Some [] \<and>
   rq_query (request_with (Some ''nice'') None) ''text'' \<noteq> Some [] \<and>
   isValidObjectId post1_id \<and> posts store1 post1_id = Some post1 \<and>
   isValidObjectId alice_id \<and> users store1 alice_id = Some alice \<and>
   add_comment env1 store1 alice_id post1_id (request_with (Some ''nice'') None) =
     (json (CommentsArr [\<lparr>c_id = fresh_id env1, c_user = alice_id, c_text = ''nice'',
                          c_name = ''Alice'', c_avatar = ''a.png'', c_date = 40\<rparr>,
                        comment1, comment2, comment3]),
      save store1 post1_id
        (post1\<lparr>comments := [\<lparr>c_id = fresh_id env1, c_user = alice_id, c_text = ''nice'',
                                c_name = ''Alice'', c_avatar = ''a.png'', c_date = 40\<rparr>,
                              comment1, comment2, comment3]\<rparr>))"
  using add_comment_prepends
    [of "request_with (Some ''nice'') None" "''nice''" post1_id store1 post1 alice_id alice env1]
  by (simp add: env1_def)

section \<open>Requests on a post that is not stored\<close>

text \<open>
  Claim C9. When the post lookup yields \<^verbatim>\<open>null\<close> (a well-formed identifier under which
  no post is stored), a like request and an unlike request are answered 500, not 404:
  reading \<^verbatim>\<open>post.likes\<close> throws a TypeError and the \<^verbatim>\<open>catch\<close> branch answers. So is
  every add-comment request that reaches the lookup, that is, whose text has passed the
  validation standing before the \<^verbatim>\<open>try\<close> block; the error it reports is that TypeError
  whenever the caller's identifier is well formed. The store is unchanged in each case.
\<close>

theorem missing_post_server_error:
  assumes v: "isValidObjectId pid" and p: "posts s pid = None"
  shows "like_post s caller pid = (server_error TypeError, s) \<and>
         unlike_post s caller pid = (server_error TypeError, s) \<and>
         (validationResult [''id'' \<mapsto> pid] rq = [] \<longrightarrow>
            (\<exists>err. add_comment e s caller pid rq = (server_error err, s)) \<and>
            (isValidObjectId caller \<longrightarrow>
               add_comment e s caller pid rq = (server_error TypeError, s))) \<and>
         status (fst (like_post s caller pid)) = 500 \<and>
         status (fst (unlike_post s caller pid)) = 500 \<and>
         (validationResult [''id'' \<mapsto> pid] rq = [] \<longrightarrow>
            status (fst (add_comment e s caller pid rq)) = 500)"
  using assms
  by (auto simp add: like_post_def like_post_try_def unlike_post_def unlike_post_try_def
      add_comment_def add_comment_try_def findById_def select_no_password_def server_error_def
      split: option.splits)

text \<open>C9 on the small store, at an identifier with no post.\<close>

theorem missing_post_server_error_witness:
  "isValidObjectId post2_id \<and> posts store1 post2_id = None \<and>
   validationResult [''id'' \<mapsto> post2_id] (request_with (Some ''nice'') None) = [] \<and>
   isValidObjectId alice_id \<and>
   like_post store1 alice_id post2_id = (server_error TypeError, store1) \<and>
   unlike_post store1 alice_id post2_id = (server_error TypeError, store1) \<and>
   add_comment env1 store1 alice_id post2_id (request_with (Some ''nice'') None) =
     (server_error TypeError, store1)"
proof -
  have r: "validationResult [''id'' \<mapsto> post2_id] (request_with (Some ''nice'') None) = []"
    by (simp add: validationResult_Nil_iff)
  show ?thesis
    using r missing_post_server_error
      [of post2_id store1 alice_id "request_with (Some ''nice'') None" env1]
    by simp
qed

section \<open>Deleting a comment: the removal index\<close>

text \<open>
  Claim C10. When a delete-comment request passes both guards (the comment located by
  \<open>comment_id\<close> exists and was written by the caller), the scan of the \<open>user\<close> fields for
  the caller does not return \<open>-1\<close>: the index lies within the array. The splice removes
  one comment: the saved and returned comments are one fewer than before.
\<close>

theorem delete_comment_index_found:
  assumes "isValidObjectId pid" and "posts s pid = Some p"
    and "find (\<lambda>x. c_id x = cid) (comments p) = Some c" and "c_user c = caller"
  shows "js_indexOf (map c_user (comments p)) caller \<noteq> - 1 \<and>
         0 \<le> js_indexOf (map c_user (comments p)) caller \<and>
         js_indexOf (map c_user (comments p)) caller < int (length (comments p)) \<and>
         (\<exists>cs'. delete_comment s caller pid cid =
                   (json (CommentsArr cs'), save s pid (p\<lparr>comments := cs'\<rparr>)) \<and>
                posts (snd (delete_comment s caller pid cid)) pid =
                   Some (p\<lparr>comments := cs'\<rparr>) \<and>
                length cs' + 1 = length (comments p))"
proof -
  let ?k = "first_by_user caller (comments p)"
  let ?cs = "take ?k (comments p) @ drop (Suc ?k) (comments p)"
  note d = delete_comment_passes [OF assms]
  have len: "length ?cs + 1 = length (comments p)" using d(2) by simp
  have st: "posts (snd (delete_comment s caller pid cid)) pid = Some (p\<lparr>comments := ?cs\<rparr>)"
    by (simp add: d(3) posts_save)
  have "\<exists>cs'. delete_comment s caller pid cid =
                   (json (CommentsArr cs'), save s pid (p\<lparr>comments := cs'\<rparr>)) \<and>
                posts (snd (delete_comment s caller pid cid)) pid =
                   Some (p\<lparr>comments := cs'\<rparr>) \<and>
                length cs' + 1 = length (comments p)"
    using d(3) st len by blast
  then show ?thesis using d(1) d(2) by simp
qed

text \<open>C10 on the small store: Bob deletes his comment, found at index 1 of three.\<close>

theorem delete_comment_index_found_witness:
  "isValidObjectId post1_id \<and> posts store1 post1_id = Some post1 \<and>
   find (\<lambda>x. c_id x = c_id comment2) (comments post1) = Some comment2 \<and>
   c_user comment2 = bob_id \<and>
   js_indexOf (map c_user (comments post1)) bob_id = 1 \<and>
   (\<exists>cs'. delete_comment store1 bob_id post1_id (c_id comment2) =
             (json (CommentsArr cs'), save store1 post1_id (post1\<lparr>comments := cs'\<rparr>)) \<and>
          posts (snd (delete_comment store1 bob_id post1_id (c_id comment2))) post1_id =
             Some (post1\<lparr>comments := cs'\<rparr>) \<and>
          length cs' + 1 = length (comments post1))"
proof -
  have f: "find (\<lambda>x. c_id x = c_id comment2) (comments post1) = Some comment2" by simp
  have i: "js_indexOf (map c_user (comments post1)) bob_id = 1" by simp
  show ?thesis
    using delete_comment_index_found [of post1_id store1 post1 "c_id comment2" comment2 bob_id] f i
    by simp
qed

end
